theory Spec2Isabelle
  imports Main "HOL-Library.Multiset"
begin

section \<open>Data model of createInstantSearchManager.js\<close>

text \<open>
  The manager is a closure over a handful of mutable variables (\<open>derivedHelpers\<close>,
  \<open>indexMapping\<close>, \<open>initialSearchParameters\<close>, \<open>skip\<close>), the search helper, the
  widgets manager and the store. The embedding passes all of them around explicitly in one
  record; every function of the source becomes a function from manager to manager.

  Search parameters are the immutable \<open>SearchParameters\<close> objects of the helper library:
  the \<open>index\<close> they query and every other setting, kept as a finite map from the
  setting's name to its value.
\<close>

record search_parameters =
  index :: string
  params :: "string \<rightharpoonup> string"

text \<open>
  A response of the search client (\<open>content\<close> in the handlers). Its \<open>index\<close> property is
  the physical index that answered.
\<close>

record search_results =
  content_index :: string
  hits :: "string list"

text \<open>
  The \<open>results\<close> field of the store is \<open>null\<close>, one response object (mono index) or a
  plain object from logical index names to responses (multi index).
\<close>

datatype results_shape = Mono search_results | Multi "string \<rightharpoonup> search_results"

type_synonym searchState = "(string \<times> string) list"

record metadata_entry =
  meta_id :: "string option"
  meta_items :: "string list"

datatype facet_entry = FacetHits "string list" | FacetQuery string

text \<open>
  The state tree held by the store. The field \<open>resultsFacetValues\<close> is absent until a
  facet-value search succeeds and is removed by \<open>omit\<close>; absence is \<open>None\<close>, as is \<open>null\<close>
  for \<open>results\<close> and \<open>error\<close>.
\<close>

record store_state =
  widgets :: searchState
  metadata :: "metadata_entry list"
  results :: "results_shape option"
  error :: "string option"
  searching :: bool
  searchingForFacetValues :: bool
  resultsFacetValues :: "(string \<rightharpoonup> facet_entry) option"

text \<open>
  A widget as the manager sees it: three optional methods, the \<open>targetedIndex\<close> of its
  \<open>context.multiIndexContext\<close> (absent when the widget is not inside an index component)
  and its \<open>props.indexName\<close>. The contribution functions are taken to be pure and total,
  which is what the manager itself assumes of them.
\<close>

record widget =
  widget_getSearchParameters :: "(search_parameters \<Rightarrow> search_parameters) option"
  widget_getMetadata :: "(searchState \<Rightarrow> metadata_entry) option"
  widget_transitionState :: "(searchState \<Rightarrow> searchState \<Rightarrow> searchState) option"
  multiIndexContext :: "string option"
  props_indexName :: "string option"

text \<open>One element of \<open>derivatedWidgets\<close>: \<open>{ targetedIndex, widgets }\<close>.\<close>

record index_group =
  targetedIndex :: string
  group_widgets :: "widget list"

text \<open>
  A derived helper is created by \<open>helper.derive\<close> with a callback that closes over the
  shared parameters and the group of the cycle that created it.
\<close>

record derived_helper =
  dh_shared :: search_parameters
  dh_group :: index_group

record manager =
  indexName :: string
  initialSearchParameters :: search_parameters
  helper_state :: search_parameters
  helper_client :: nat
  cache_clears :: nat
  derivedHelpers :: "(string \<times> derived_helper) list"
  indexMapping :: "string \<rightharpoonup> string"
  registered :: "widget list"
  store :: store_state
  skip :: bool
  dispatched :: "search_parameters list list"
  facet_dispatched :: "(string \<times> string \<times> search_parameters) list"

text \<open>
  \<open>registered\<close> is what \<open>widgetsManager.getWidgets()\<close> returns, in registration order.
  \<open>dispatched\<close> records every batch of queries handed to the search client by
  \<open>helper.search()\<close> (the primary query first, then one per derived helper), and
  \<open>facet_dispatched\<close> every facet-value request; \<open>helper_client\<close> and \<open>cache_clears\<close>
  stand for the client set by \<open>helper.setClient\<close> and the effect of
  \<open>helper.clearCache\<close>.
\<close>

section \<open>JavaScript primitives used by the source\<close>

text \<open>\<open>Array.prototype.reduce\<close> with an initial value: left to right.\<close>

primrec reduce :: "('b \<Rightarrow> 'a \<Rightarrow> 'b) \<Rightarrow> 'a list \<Rightarrow> 'b \<Rightarrow> 'b" where
  "reduce f [] acc = acc"
| "reduce f (x # xs) acc = reduce f xs (f acc x)"

text \<open>Truthiness of an optional string: \<open>undefined\<close> and the empty string are falsy.\<close>

definition truthy :: "string option \<Rightarrow> bool" where
  "truthy p = (case p of None \<Rightarrow> False | Some s \<Rightarrow> s \<noteq> [])"

text \<open>
  The names every plain object inherits from \<open>Object.prototype\<close>. Reading one of them
  from an object that has no entry of that name does not give \<open>undefined\<close>, so a plain
  object is the finite map of the entries written to it only for the other names.
\<close>

definition inheritedName :: "string \<Rightarrow> bool" where
  "inheritedName k =
     (k \<in> set [''constructor'', ''toString'', ''toLocaleString'', ''valueOf'',
                ''hasOwnProperty'', ''isPrototypeOf'', ''propertyIsEnumerable'', ''__proto__'',
                ''__defineGetter__'', ''__defineSetter__'', ''__lookupGetter__'',
                ''__lookupSetter__''])"

text \<open>
  A property key: reading a key that the object neither has nor inherits gives
  \<open>undefined\<close>, and \<open>undefined\<close> used as a key is the string \<open>undefined\<close>.
\<close>

definition propertyKey :: "string option \<Rightarrow> string" where
  "propertyKey k = (case k of None \<Rightarrow> ''undefined'' | Some s \<Rightarrow> s)"

text \<open>
  Two methods of \<open>SearchParameters\<close> (helper library): each returns a new object that
  differs from the old one in the index, or in one setting.
\<close>

definition setIndex :: "string \<Rightarrow> search_parameters \<Rightarrow> search_parameters" where
  "setIndex i p = p\<lparr>index := i\<rparr>"

definition setQueryParameter :: "string \<Rightarrow> string \<Rightarrow> search_parameters \<Rightarrow> search_parameters" where
  "setQueryParameter k v p = p\<lparr>params := (params p)(k \<mapsto> v)\<rparr>"

text \<open>
  \<open>results.getFacetByName\<close>: a response object has the method; a plain object has it
  only as an entry of that name.
\<close>

definition has_getFacetByName :: "results_shape \<Rightarrow> bool" where
  "has_getFacetByName r =
     (case r of Mono c \<Rightarrow> True | Multi mp \<Rightarrow> mp ''getFacetByName'' \<noteq> None)"

text \<open>
  \<open>results[key] = content\<close>. The handler only assigns after it has replaced a response
  object by \<open>{}\<close>, so the first case is never reached from it.
\<close>

definition assign_result :: "results_shape \<Rightarrow> string \<Rightarrow> search_results \<Rightarrow> results_shape" where
  "assign_result r k c = (case r of Mono old \<Rightarrow> Mono old | Multi mp \<Rightarrow> Multi (mp(k \<mapsto> c)))"

definition is_multi :: "results_shape option \<Rightarrow> bool" where
  "is_multi r = (case r of Some (Multi mp) \<Rightarrow> True | Some (Mono c) \<Rightarrow> False | None \<Rightarrow> False)"

section \<open>The result handlers\<close>

definition handleSearchSuccess :: "manager \<Rightarrow> search_results \<Rightarrow> manager" where
  "handleSearchSuccess m content =
     (let state = store m;
          results0 = (case results state of Some r \<Rightarrow> r | None \<Rightarrow> Multi Map.empty);
          results1 = (if derivedHelpers m \<noteq> [] \<and> has_getFacetByName results0
                      then Multi Map.empty else results0);
          results2 = (if derivedHelpers m \<noteq> []
                      then assign_result results1
                             (propertyKey (indexMapping m (content_index content))) content
                      else Mono content)
      in m\<lparr>store := state\<lparr>results := Some results2, searching := False, error := None,
                             resultsFacetValues := None\<rparr>\<rparr>)"

definition handleSearchError :: "manager \<Rightarrow> string \<Rightarrow> manager" where
  "handleSearchError m e =
     m\<lparr>store := (store m)\<lparr>error := Some e, searching := False,
                            resultsFacetValues := None\<rparr>\<rparr>"

section \<open>Facet-value search\<close>

text \<open>
  \<open>onSearchForFacetValues\<close> raises the flag and issues the request on the helper's
  current state; the two continuations of the promise are separate functions here, run
  when the client answers.
\<close>

definition onSearchForFacetValues :: "manager \<Rightarrow> string \<Rightarrow> string \<Rightarrow> manager" where
  "onSearchForFacetValues m facetName query =
     m\<lparr>store := (store m)\<lparr>searchingForFacetValues := True\<rparr>,
       facet_dispatched := facet_dispatched m @ [(facetName, query, helper_state m)]\<rparr>"

definition facetValuesSuccess :: "manager \<Rightarrow> string \<Rightarrow> string \<Rightarrow> string list \<Rightarrow> manager" where
  "facetValuesSuccess m facetName query facetHits =
     (let prev = (case resultsFacetValues (store m) of None \<Rightarrow> Map.empty | Some fv \<Rightarrow> fv)
      in m\<lparr>store := (store m)\<lparr>
             resultsFacetValues :=
               Some (prev(facetName \<mapsto> FacetHits facetHits, ''query'' \<mapsto> FacetQuery query)),
             searchingForFacetValues := False\<rparr>\<rparr>)"

definition facetValuesError :: "manager \<Rightarrow> string \<Rightarrow> manager" where
  "facetValuesError m e =
     m\<lparr>store := (store m)\<lparr>error := Some e, searchingForFacetValues := False\<rparr>\<rparr>"

section \<open>The parameter composer\<close>

text \<open>\<open>Boolean(widget.getSearchParameters)\<close>.\<close>

definition contributing :: "widget \<Rightarrow> bool" where
  "contributing w = (widget_getSearchParameters w \<noteq> None)"

text \<open>The three filters of \<open>getSearchParameters\<close>, in the order of the source.\<close>

definition sharedFilter :: "string \<Rightarrow> widget \<Rightarrow> bool" where
  "sharedFilter idx w =
     (multiIndexContext w = None \<and>
      (props_indexName w = Some idx \<or> \<not> truthy (props_indexName w)))"

definition derivedFilter :: "string \<Rightarrow> widget \<Rightarrow> bool" where
  "derivedFilter idx w =
     ((multiIndexContext w \<noteq> None \<and> multiIndexContext w \<noteq> Some idx) \<or>
      (truthy (props_indexName w) \<and> props_indexName w \<noteq> Some idx))"

definition mainFilter :: "string \<Rightarrow> widget \<Rightarrow> bool" where
  "mainFilter idx w =
     (multiIndexContext w = Some idx \<or>
      (truthy (props_indexName w) \<and> props_indexName w = Some idx))"

text \<open>
  \<open>(res, widget) => widget.getSearchParameters(res)\<close>. It is only ever applied to
  widgets that passed \<open>contributing\<close>.
\<close>

definition contribute :: "search_parameters \<Rightarrow> widget \<Rightarrow> search_parameters" where
  "contribute res w = the (widget_getSearchParameters w) res"

text \<open>
  The index a derived widget targets: the one of its multi-index context when it has
  one, its own \<open>props.indexName\<close> otherwise (defined for every widget that passed the
  derived filter).
\<close>

definition targetOf :: "widget \<Rightarrow> string" where
  "targetOf w =
     (case multiIndexContext w of Some t \<Rightarrow> t | None \<Rightarrow> propertyKey (props_indexName w))"

text \<open>
  The body of the grouping \<open>reduce\<close>: \<open>indices.find\<close> returns the first group of that
  target, which receives the widget; when there is none a new group is pushed.
\<close>

primrec addToGroup :: "string \<Rightarrow> widget \<Rightarrow> index_group list \<Rightarrow> index_group list" where
  "addToGroup t w [] = [\<lparr>targetedIndex = t, group_widgets = [w]\<rparr>]"
| "addToGroup t w (g # gs) =
     (if targetedIndex g = t then g\<lparr>group_widgets := group_widgets g @ [w]\<rparr> # gs
      else g # addToGroup t w gs)"

definition groupStep :: "index_group list \<Rightarrow> widget \<Rightarrow> index_group list" where
  "groupStep indices w = addToGroup (targetOf w) w indices"

text \<open>The widgets each of the three pipelines of the composer consumes.\<close>

definition sharedWidgets :: "string \<Rightarrow> widget list \<Rightarrow> widget list" where
  "sharedWidgets idx ws = filter (sharedFilter idx) (filter contributing ws)"

definition derivedGroups :: "string \<Rightarrow> widget list \<Rightarrow> index_group list" where
  "derivedGroups idx ws = reduce groupStep (filter (derivedFilter idx) (filter contributing ws)) []"

definition mainWidgets :: "string \<Rightarrow> widget list \<Rightarrow> widget list" where
  "mainWidgets idx ws = filter (mainFilter idx) (filter contributing ws)"

record composed =
  sharedParameters :: search_parameters
  mainIndexParameters :: search_parameters
  derivatedWidgets :: "index_group list"

text \<open>
  \<open>getSearchParameters\<close> resets the index mapping, writes the entry of the shared
  parameters' index and returns the three parts.
\<close>

definition getSearchParameters :: "manager \<Rightarrow> manager \<times> composed" where
  "getSearchParameters m =
     (let shared = reduce contribute (sharedWidgets (indexName m) (registered m))
                     (initialSearchParameters m);
          m1 = m\<lparr>indexMapping := Map.empty(index shared \<mapsto> indexName m)\<rparr>;
          derivated = derivedGroups (indexName m) (registered m);
          mainp = reduce contribute (mainWidgets (indexName m) (registered m)) shared
      in (m1, \<lparr>sharedParameters = shared, mainIndexParameters = mainp,
                derivatedWidgets = derivated\<rparr>))"

section \<open>The search cycle\<close>

text \<open>\<open>object[key] = value\<close> on an object whose keys are kept in insertion order.\<close>

primrec setProperty :: "string \<Rightarrow> 'v \<Rightarrow> (string \<times> 'v) list \<Rightarrow> (string \<times> 'v) list" where
  "setProperty k v [] = [(k, v)]"
| "setProperty k v (e # es) =
     (if fst e = k then (k, v) # es else e # setProperty k v es)"

text \<open>
  The callback given to \<open>helper.derive\<close>, without its write to the index mapping: the
  group's widgets folded over the shared parameters of the cycle.
\<close>

definition derivedParameters :: "derived_helper \<Rightarrow> search_parameters" where
  "derivedParameters dh = reduce contribute (group_widgets (dh_group dh)) (dh_shared dh)"

text \<open>
  \<open>helper.search()\<close> belongs to the helper library. It builds the queries first, calling
  the callback of every attached derived helper in the order of attachment, and then
  hands the whole batch (the helper's own state first) to the client in one call. Each
  callback writes \<open>indexMapping[parameters.index] = index\<close> before it returns. The
  derived helpers attached to the helper are those of \<open>derivedHelpers\<close>: \<open>search\<close>
  detaches all the others. Nothing runs in \<open>search\<close> after \<open>helper.search()\<close>, so the
  index mapping of the state \<open>helperSearch\<close> returns is the one in force when the batch
  is handed to the client.
\<close>

primrec getModifiedStates ::
  "(string \<times> derived_helper) list \<Rightarrow> (string \<rightharpoonup> string) \<Rightarrow>
   (string \<rightharpoonup> string) \<times> search_parameters list" where
  "getModifiedStates [] mp = (mp, [])"
| "getModifiedStates (e # es) mp =
     (let p = derivedParameters (snd e);
          r = getModifiedStates es (mp(index p \<mapsto> targetedIndex (dh_group (snd e))))
      in (fst r, p # snd r))"

definition helperSearch :: "manager \<Rightarrow> manager" where
  "helperSearch m =
     (let r = getModifiedStates (derivedHelpers m) (indexMapping m)
      in m\<lparr>indexMapping := fst r, dispatched := dispatched m @ [helper_state m # snd r]\<rparr>)"

definition deriveStep ::
  "search_parameters \<Rightarrow> (string \<times> derived_helper) list \<Rightarrow> index_group \<Rightarrow>
   (string \<times> derived_helper) list" where
  "deriveStep shared dhs g =
     setProperty (targetedIndex g) \<lparr>dh_shared = shared, dh_group = g\<rparr> dhs"

definition search :: "manager \<Rightarrow> manager" where
  "search m =
     (if skip m then m
      else
        (let r = getSearchParameters m;
             c = snd r;
             m2 = (fst r)\<lparr>derivedHelpers := []\<rparr>;
             m3 = m2\<lparr>helper_state := sharedParameters c\<rparr>;
             m4 = m3\<lparr>derivedHelpers :=
                       reduce (deriveStep (sharedParameters c)) (derivatedWidgets c)
                         (derivedHelpers m3)\<rparr>;
             m5 = m4\<lparr>helper_state := mainIndexParameters c\<rparr>
         in helperSearch m5))"

section \<open>The other operations of the manager\<close>

definition skipSearch :: "manager \<Rightarrow> manager" where
  "skipSearch m = m\<lparr>skip := True\<rparr>"

definition updateClient :: "manager \<Rightarrow> nat \<Rightarrow> manager" where
  "updateClient m client = search (m\<lparr>helper_client := client\<rparr>)"

definition clearCache :: "manager \<Rightarrow> manager" where
  "clearCache m = search (m\<lparr>cache_clears := Suc (cache_clears m)\<rparr>)"

definition getMetadata :: "manager \<Rightarrow> searchState \<Rightarrow> metadata_entry list" where
  "getMetadata m state =
     map (\<lambda>w. the (widget_getMetadata w) state)
       (filter (\<lambda>w. widget_getMetadata w \<noteq> None) (registered m))"

definition onWidgetsUpdate :: "manager \<Rightarrow> manager" where
  "onWidgetsUpdate m =
     search (m\<lparr>store := (store m)\<lparr>metadata := getMetadata m (widgets (store m)),
                                   searching := True\<rparr>\<rparr>)"

definition transitionState :: "manager \<Rightarrow> searchState \<Rightarrow> searchState" where
  "transitionState m nextSearchState =
     reduce (\<lambda>res w. the (widget_transitionState w) (widgets (store m)) res)
       (filter (\<lambda>w. widget_transitionState w \<noteq> None) (registered m)) nextSearchState"

definition onExternalStateUpdate :: "manager \<Rightarrow> searchState \<Rightarrow> manager" where
  "onExternalStateUpdate m nextSearchState =
     search (m\<lparr>store := (store m)\<lparr>widgets := nextSearchState,
                                   metadata := getMetadata m nextSearchState,
                                   searching := True\<rparr>\<rparr>)"

definition updateIndex :: "manager \<Rightarrow> string \<Rightarrow> manager" where
  "updateIndex m newIndex =
     search (m\<lparr>initialSearchParameters := setIndex newIndex (initialSearchParameters m)\<rparr>)"

definition getWidgetsIds :: "manager \<Rightarrow> string list" where
  "getWidgetsIds m =
     reduce (\<lambda>res meta. case meta_id meta of Some i \<Rightarrow> res @ [i] | None \<Rightarrow> res)
       (metadata (store m)) []"

text \<open>
  The constructor. \<open>highlightTags\<close> comes from a module that is not part of the sources
  and is a parameter here; the settings are spread in the order of the source, the index
  name always being the configured one.
\<close>

definition createInstantSearchManager ::
  "string \<Rightarrow> searchState \<Rightarrow> nat \<Rightarrow> (string \<rightharpoonup> string) \<Rightarrow> results_shape option \<Rightarrow>
   (string \<rightharpoonup> string) \<Rightarrow> manager" where
  "createInstantSearchManager idx initialState algoliaClient searchParameters resultsState
     highlightTags =
     (let baseSP = \<lparr>index = idx, params = searchParameters ++ highlightTags\<rparr>
      in \<lparr>indexName = idx, initialSearchParameters = baseSP, helper_state = baseSP,
           helper_client = algoliaClient, cache_clears = 0, derivedHelpers = [],
           indexMapping = Map.empty, registered = [],
           store = \<lparr>widgets = initialState, metadata = [], results = resultsState,
                     error = None, searching = False, searchingForFacetValues = False,
                     resultsFacetValues = None\<rparr>,
           skip = False, dispatched = [], facet_dispatched = []\<rparr>)"

section \<open>Everything that can happen to a manager\<close>

text \<open>
  The calls of the returned interface that change something, the callbacks the helper
  and the promise run, a change of the registered widgets, which the widgets manager
  follows with \<open>onWidgetsUpdate\<close>, and a \<open>setState\<close> on the store by whoever holds
  the interface. \<open>getWidgetsIds\<close> and \<open>transitionState\<close> only read.

  The helper delivers the answers of one batch primary first, and drops an answer that
  is older than the last one it delivered. A list of events is not held to this order:
  \<open>run\<close> accepts every list, which is more than the helper can produce. A property
  of all lists holds of the helper's; an example built from a list has to follow the
  helper's order.
\<close>

datatype event =
    SkipSearch
  | UpdateClient nat
  | ClearCache
  | UpdateIndex string
  | WidgetsChanged "widget list"
  | OnExternalStateUpdate searchState
  | OnSearchForFacetValues string string
  | SearchSuccess search_results
  | SearchError string
  | FacetValuesSuccess string string "string list"
  | FacetValuesError string
  | StoreSetState store_state

fun step :: "manager \<Rightarrow> event \<Rightarrow> manager" where
  "step m SkipSearch = skipSearch m"
| "step m (UpdateClient c) = updateClient m c"
| "step m ClearCache = clearCache m"
| "step m (UpdateIndex i) = updateIndex m i"
| "step m (WidgetsChanged ws) = onWidgetsUpdate (m\<lparr>registered := ws\<rparr>)"
| "step m (OnExternalStateUpdate s) = onExternalStateUpdate m s"
| "step m (OnSearchForFacetValues f q) = onSearchForFacetValues m f q"
| "step m (SearchSuccess c) = handleSearchSuccess m c"
| "step m (SearchError e) = handleSearchError m e"
| "step m (FacetValuesSuccess f q hs) = facetValuesSuccess m f q hs"
| "step m (FacetValuesError e) = facetValuesError m e"
| "step m (StoreSetState s) = m\<lparr>store := s\<rparr>"

definition run :: "manager \<Rightarrow> event list \<Rightarrow> manager" where
  "run m evs = reduce step evs m"

section \<open>Notions used to state the properties\<close>

text \<open>
  The number of buckets of the composer that hold a widget: the shared fold, the fold of
  the primary index, and every derived group that lists it.
\<close>

definition bucketCount :: "string \<Rightarrow> widget list \<Rightarrow> widget \<Rightarrow> nat" where
  "bucketCount idx ws w =
     (if w \<in> set (sharedWidgets idx ws) then 1 else 0) +
     (if w \<in> set (mainWidgets idx ws) then 1 else 0) +
     length (filter (\<lambda>g. w \<in> set (group_widgets g)) (derivedGroups idx ws))"

text \<open>
  The invariant of the grouping loop: no two groups share a target, and every widget of
  a group targets the group's index.
\<close>

definition grouped :: "index_group list \<Rightarrow> bool" where
  "grouped gs =
     (distinct (map targetedIndex gs) \<and>
      (\<forall>g \<in> set gs. \<forall>v \<in> set (group_widgets g). targetOf v = targetedIndex g))"

text \<open>
  The physical index of a derived group: the index of the parameters its callback
  returns. \<open>recordGroups\<close> is the sequence of writes the callbacks make to the index
  mapping, one per group, in order.
\<close>

definition physicalIndex :: "search_parameters \<Rightarrow> index_group \<Rightarrow> string" where
  "physicalIndex shared g = index (reduce contribute (group_widgets g) shared)"

definition recordGroups ::
  "search_parameters \<Rightarrow> (string \<rightharpoonup> string) \<Rightarrow> index_group list \<Rightarrow> (string \<rightharpoonup> string)" where
  "recordGroups shared mp gs =
     foldl (\<lambda>acc g. acc(physicalIndex shared g \<mapsto> targetedIndex g)) mp gs"

section \<open>Concrete widgets and managers\<close>

text \<open>
  Widgets of the kinds the library ships, reduced to what the manager reads: a
  refinement list outside any index component, the index component itself (it registers
  as a widget whose contribution sets the index to its \<open>indexName\<close> prop), a menu inside
  an index component, and sort-by widgets outside and inside an index component (their
  contribution sets the index to the selected replica).
\<close>

definition plainWidget :: widget where
  "plainWidget =
     \<lparr>widget_getSearchParameters = None, widget_getMetadata = None,
      widget_transitionState = None, multiIndexContext = None, props_indexName = None\<rparr>"

definition refinementList :: "string \<Rightarrow> widget" where
  "refinementList v =
     plainWidget\<lparr>widget_getSearchParameters := Some (setQueryParameter ''facetFilters'' v)\<rparr>"

definition indexWidget :: "string \<Rightarrow> widget" where
  "indexWidget i =
     plainWidget\<lparr>widget_getSearchParameters := Some (setIndex i), props_indexName := Some i\<rparr>"

definition menuIn :: "string \<Rightarrow> string \<Rightarrow> widget" where
  "menuIn t v =
     plainWidget\<lparr>widget_getSearchParameters := Some (setQueryParameter ''facetFilters'' v),
                 multiIndexContext := Some t\<rparr>"

definition sortBy :: "string \<Rightarrow> widget" where
  "sortBy replica = plainWidget\<lparr>widget_getSearchParameters := Some (setIndex replica)\<rparr>"

definition sortByIn :: "string \<Rightarrow> string \<Rightarrow> widget" where
  "sortByIn t replica =
     plainWidget\<lparr>widget_getSearchParameters := Some (setIndex replica),
                 multiIndexContext := Some t\<rparr>"

text \<open>A fresh manager for the index \<open>products\<close> with the given widgets registered.\<close>

definition productsManager :: "widget list \<Rightarrow> manager" where
  "productsManager ws =
     (createInstantSearchManager ''products'' [] 0 Map.empty None Map.empty)\<lparr>registered := ws\<rparr>"

definition response :: "string \<Rightarrow> search_results" where
  "response i = \<lparr>content_index = i, hits = [''hit'']\<rparr>"

section \<open>Basic facts\<close>

lemma reduce_foldl: "reduce f xs a = foldl f a xs"
  by (induction xs arbitrary: a) simp_all

lemma reduce_append: "reduce f (xs @ ys) a = reduce f ys (reduce f xs a)"
  by (induction xs arbitrary: a) simp_all

lemma reduce_preserves:
  "(\<And>a x. x \<in> set xs \<Longrightarrow> P (f a x) = P a) \<Longrightarrow> P (reduce f xs a) = P a"
  by (induction xs arbitrary: a) simp_all

lemma contribute_eq: "contribute = (\<lambda>acc w. the (widget_getSearchParameters w) acc)"
  by (intro ext) (simp add: contribute_def)

lemma productsManager_fields:
  "indexName (productsManager ws) = ''products''"
  "registered (productsManager ws) = ws"
  "initialSearchParameters (productsManager ws) = \<lparr>index = ''products'', params = Map.empty\<rparr>"
  "skip (productsManager ws) = False"
  "dispatched (productsManager ws) = []"
  "results (store (productsManager ws)) = None"
  by (simp_all add: productsManager_def createInstantSearchManager_def Let_def)

lemma widget_kinds:
  "contributing (refinementList v)" "contributing (indexWidget i)" "contributing (menuIn t v)"
  "contributing (sortBy r)" "contributing (sortByIn t r)"
  by (simp_all add: contributing_def refinementList_def indexWidget_def menuIn_def sortBy_def
        sortByIn_def plainWidget_def)

section \<open>Result handlers: frame properties\<close>

text \<open>
  C5. For every error delivered to the main-search error handler and every prior state,
  the handler stores the error in \<open>error\<close>, sets \<open>searching\<close> to false and leaves
  \<open>results\<close> as it was.
\<close>

theorem handleSearchError_stores_error:
  "error (store (handleSearchError m e)) = Some e \<and>
   searching (store (handleSearchError m e)) = False \<and>
   results (store (handleSearchError m e)) = results (store m)"
  by (simp add: handleSearchError_def)

text \<open>
  C8. An error on the facet-value path leaves \<open>results\<close>, \<open>metadata\<close> and the main flag
  \<open>searching\<close> as they were: putting the old values of \<open>error\<close> and
  \<open>searchingForFacetValues\<close> back gives the prior store, so these two are the only
  fields the handler modifies. The same holds for the whole path, from the call of
  \<open>onSearchForFacetValues\<close> to the rejection of its promise.
\<close>

theorem facetValuesError_frame:
  "results (store (facetValuesError m e)) = results (store m) \<and>
   metadata (store (facetValuesError m e)) = metadata (store m) \<and>
   searching (store (facetValuesError m e)) = searching (store m) \<and>
   (store (facetValuesError m e))
     \<lparr>error := error (store m),
      searchingForFacetValues := searchingForFacetValues (store m)\<rparr> = store m \<and>
   error (store (facetValuesError m e)) = Some e \<and>
   searchingForFacetValues (store (facetValuesError m e)) = False \<and>
   results (store (facetValuesError (onSearchForFacetValues m f q) e)) = results (store m) \<and>
   metadata (store (facetValuesError (onSearchForFacetValues m f q) e)) = metadata (store m) \<and>
   searching (store (facetValuesError (onSearchForFacetValues m f q) e)) = searching (store m)"
  by (simp add: facetValuesError_def onSearchForFacetValues_def)

text \<open>
  C10. Every completion of the main search, success or error, removes
  \<open>resultsFacetValues\<close> from the store: whatever a facet-value search stored before is
  gone once a main response or error has been reconciled.
\<close>

theorem main_search_completion_erases_facet_values:
  "resultsFacetValues (store (handleSearchSuccess m c)) = None \<and>
   resultsFacetValues (store (handleSearchError m e)) = None \<and>
   resultsFacetValues (store (facetValuesSuccess m f q hs)) \<noteq> None \<and>
   resultsFacetValues (store (handleSearchSuccess (facetValuesSuccess m f q hs) c)) = None \<and>
   resultsFacetValues (store (handleSearchError (facetValuesSuccess m f q hs) e)) = None"
  by (simp add: handleSearchSuccess_def handleSearchError_def facetValuesSuccess_def Let_def)

section \<open>The skip flag\<close>

lemma search_skip: "skip m \<Longrightarrow> search m = m"
  by (simp add: search_def)

lemma step_keeps_skip:
  "skip m \<Longrightarrow> skip (step m ev) \<and> helper_state (step m ev) = helper_state m \<and>
     derivedHelpers (step m ev) = derivedHelpers m \<and> indexMapping (step m ev) = indexMapping m \<and>
     dispatched (step m ev) = dispatched m"
  by (cases ev)
     (simp_all add: search_def skipSearch_def updateClient_def clearCache_def updateIndex_def
        onWidgetsUpdate_def onExternalStateUpdate_def onSearchForFacetValues_def
        handleSearchSuccess_def handleSearchError_def facetValuesSuccess_def
        facetValuesError_def Let_def)

lemma reduce_step_skip:
  "skip m \<Longrightarrow> skip (reduce step evs m) \<and> helper_state (reduce step evs m) = helper_state m \<and>
     derivedHelpers (reduce step evs m) = derivedHelpers m \<and>
     indexMapping (reduce step evs m) = indexMapping m \<and>
     dispatched (reduce step evs m) = dispatched m"
proof (induction evs arbitrary: m)
  case Nil
  then show ?case by simp
next
  case (Cons ev evs)
  from Cons.prems have s: "skip (step m ev)" using step_keeps_skip by blast
  from Cons.IH [OF s] step_keeps_skip [OF Cons.prems, of ev] show ?case by simp
qed

text \<open>
  C9. After \<open>skipSearch\<close>, whatever is called on the manager and whatever callbacks run
  afterwards (any list of events), the flag stays set, so \<open>search\<close> does nothing: no
  batch is dispatched, and the helper state, the derived helpers and the index mapping
  are those of the moment \<open>skipSearch\<close> was called. No event resets the flag.
\<close>

theorem skipSearch_permanent:
  "skip (run (skipSearch m) evs) \<and>
   search (run (skipSearch m) evs) = run (skipSearch m) evs \<and>
   helper_state (run (skipSearch m) evs) = helper_state m \<and>
   derivedHelpers (run (skipSearch m) evs) = derivedHelpers m \<and>
   indexMapping (run (skipSearch m) evs) = indexMapping m \<and>
   dispatched (run (skipSearch m) evs) = dispatched m"
proof -
  have s: "skip (skipSearch m)" by (simp add: skipSearch_def)
  from reduce_step_skip [OF s, of evs] search_skip [of "run (skipSearch m) evs"]
  show ?thesis by (simp add: run_def skipSearch_def)
qed

text \<open>
  Five calls that would each start a search cycle dispatch nothing once the flag is set.
\<close>

theorem skipSearch_permanent_witness:
  "dispatched (run (skipSearch (productsManager [indexWidget ''products_by_price'']))
      [UpdateClient 1, ClearCache, UpdateIndex ''products_v2'',
       WidgetsChanged [refinementList ''brand:acme''], OnExternalStateUpdate []]) = [] \<and>
   skip (run (skipSearch (productsManager [indexWidget ''products_by_price'']))
      [UpdateClient 1, ClearCache, UpdateIndex ''products_v2'',
       WidgetsChanged [refinementList ''brand:acme''], OnExternalStateUpdate []])"
proof -
  let ?m = "productsManager [indexWidget ''products_by_price'']"
  let ?evs = "[UpdateClient 1, ClearCache, UpdateIndex ''products_v2'',
       WidgetsChanged [refinementList ''brand:acme''], OnExternalStateUpdate []]"
  have "dispatched ?m = []"
    by (simp add: productsManager_def createInstantSearchManager_def Let_def)
  with skipSearch_permanent [of ?m ?evs] show ?thesis by simp
qed

section \<open>The parameter composer: buckets\<close>

text \<open>
  The grouping loop keeps the targets of the groups distinct, puts every widget it
  consumes into a group of the widget's own target, and loses or duplicates none.
\<close>

lemma addToGroup_targets:
  "map targetedIndex (addToGroup t w gs) =
     (if t \<in> set (map targetedIndex gs) then map targetedIndex gs
      else map targetedIndex gs @ [t])"
  by (induction gs) auto

lemma addToGroup_mset:
  "mset (concat (map group_widgets (addToGroup t w gs))) =
     mset (concat (map group_widgets gs)) + {#w#}"
  by (induction gs) auto

lemma addToGroup_members:
  "g \<in> set (addToGroup t w gs) \<Longrightarrow> v \<in> set (group_widgets g) \<Longrightarrow>
     (v = w \<and> targetedIndex g = t) \<or>
     (\<exists>g' \<in> set gs. v \<in> set (group_widgets g') \<and> targetedIndex g' = targetedIndex g)"
  by (induction gs) (auto split: if_splits)

lemma grouped_groupStep: "grouped gs \<Longrightarrow> grouped (groupStep gs w)"
  unfolding grouped_def groupStep_def
  by (auto simp: addToGroup_targets dest!: addToGroup_members)

lemma grouped_reduce: "grouped gs \<Longrightarrow> grouped (reduce groupStep ws gs)"
  by (induction ws arbitrary: gs) (simp_all add: grouped_groupStep)

lemma reduce_groupStep_mset:
  "mset (concat (map group_widgets (reduce groupStep ws gs))) =
     mset (concat (map group_widgets gs)) + mset ws"
  by (induction ws arbitrary: gs) (simp_all add: groupStep_def addToGroup_mset)

lemma grouped_derivedGroups: "grouped (derivedGroups idx ws)"
  unfolding derivedGroups_def by (rule grouped_reduce) (simp add: grouped_def)

lemma derivedGroups_mset:
  "mset (concat (map group_widgets (derivedGroups idx ws))) =
     mset (filter (derivedFilter idx) (filter contributing ws))"
  by (simp add: derivedGroups_def reduce_groupStep_mset)

lemma distinct_filter_le_one:
  "distinct (map f gs) \<Longrightarrow> length (filter (\<lambda>g. f g = t) gs) \<le> Suc 0"
  by (induction gs) (auto simp: filter_empty_conv image_iff)

lemma grouped_holders_le_one:
  assumes "grouped gs"
  shows "length (filter (\<lambda>g. w \<in> set (group_widgets g)) gs) \<le> Suc 0"
proof -
  have "filter (\<lambda>g. w \<in> set (group_widgets g)) gs =
        filter (\<lambda>g. w \<in> set (group_widgets g)) (filter (\<lambda>g. targetedIndex g = targetOf w) gs)"
    using assms by (auto simp: grouped_def intro!: filter_cong)
  then have "length (filter (\<lambda>g. w \<in> set (group_widgets g)) gs) \<le>
             length (filter (\<lambda>g. targetedIndex g = targetOf w) gs)"
    by (metis length_filter_le)
  also have "\<dots> \<le> Suc 0"
    using assms by (simp add: grouped_def distinct_filter_le_one)
  finally show ?thesis .
qed

lemma in_derivedGroups_iff:
  "(\<exists>g \<in> set (derivedGroups idx ws). w \<in> set (group_widgets g)) \<longleftrightarrow>
     (w \<in> set ws \<and> contributing w \<and> derivedFilter idx w)"
proof -
  have "(\<exists>g \<in> set (derivedGroups idx ws). w \<in> set (group_widgets g)) \<longleftrightarrow>
        w \<in> set (concat (map group_widgets (derivedGroups idx ws)))"
    by auto
  also have "\<dots> \<longleftrightarrow> w \<in># mset (concat (map group_widgets (derivedGroups idx ws)))"
    by simp
  also have "\<dots> \<longleftrightarrow> w \<in> set (filter (derivedFilter idx) (filter contributing ws))"
    unfolding derivedGroups_mset by simp
  finally show ?thesis by auto
qed

lemma holders_count:
  "length (filter (\<lambda>g. w \<in> set (group_widgets g)) (derivedGroups idx ws)) =
     (if w \<in> set ws \<and> contributing w \<and> derivedFilter idx w then 1 else 0)"
proof (cases "w \<in> set ws \<and> contributing w \<and> derivedFilter idx w")
  case True
  then have "\<exists>g \<in> set (derivedGroups idx ws). w \<in> set (group_widgets g)"
    using in_derivedGroups_iff [of idx ws w] by blast
  then have "filter (\<lambda>g. w \<in> set (group_widgets g)) (derivedGroups idx ws) \<noteq> []"
    by (simp add: filter_empty_conv)
  then have pos: "0 < length (filter (\<lambda>g. w \<in> set (group_widgets g)) (derivedGroups idx ws))"
    by simp
  have rhs: "(if w \<in> set ws \<and> contributing w \<and> derivedFilter idx w then 1 else 0) = (1::nat)"
    using True by simp
  show ?thesis
    unfolding rhs
    using pos grouped_holders_le_one [OF grouped_derivedGroups, of w idx ws] by linarith
next
  case False
  then have "\<not> (\<exists>g \<in> set (derivedGroups idx ws). w \<in> set (group_widgets g))"
    using in_derivedGroups_iff [of idx ws w] by blast
  then have "filter (\<lambda>g. w \<in> set (group_widgets g)) (derivedGroups idx ws) = []"
    by (simp add: filter_empty_conv)
  with False show ?thesis by simp
qed

text \<open>How the three filters overlap.\<close>

lemma filters_cover: "sharedFilter idx w \<or> mainFilter idx w \<or> derivedFilter idx w"
  by (auto simp: sharedFilter_def mainFilter_def derivedFilter_def truthy_def split: option.splits)

lemma shared_not_derived: "sharedFilter idx w \<Longrightarrow> \<not> derivedFilter idx w"
  by (auto simp: sharedFilter_def derivedFilter_def truthy_def split: option.splits)

lemma shared_main_iff:
  "sharedFilter idx w \<and> mainFilter idx w \<longleftrightarrow>
     multiIndexContext w = None \<and> props_indexName w = Some idx \<and> idx \<noteq> []"
  by (auto simp: sharedFilter_def mainFilter_def truthy_def split: option.splits)

lemma main_derived_iff:
  "mainFilter idx w \<and> derivedFilter idx w \<longleftrightarrow>
     multiIndexContext w \<noteq> None \<and> truthy (props_indexName w) \<and>
     (multiIndexContext w = Some idx) \<noteq> (props_indexName w = Some idx)"
  by (auto simp: mainFilter_def derivedFilter_def truthy_def split: option.splits)

lemma bucketCount_eq:
  assumes "w \<in> set ws" "contributing w"
  shows "bucketCount idx ws w =
     (if mainFilter idx w \<and> (sharedFilter idx w \<or> derivedFilter idx w) then 2 else 1)"
  using assms filters_cover [of idx w] shared_not_derived [of idx w]
  by (auto simp: bucketCount_def holders_count sharedWidgets_def mainWidgets_def)

text \<open>
  C1, as the code has it. Every registered widget with a parameter contribution is
  consumed by at least one bucket and by at most one derived group, and never by both
  the shared fold and a derived group. It is consumed twice in exactly two situations:
  by the shared fold and the primary fold when it has no multi-index context and its
  \<open>props.indexName\<close> is the configured (non-empty) index name; by the primary fold and
  a derived group when it has a multi-index context and a \<open>props.indexName\<close> of which
  exactly one names the configured index.
\<close>

theorem composer_buckets:
  assumes "w \<in> set (registered m)" and "contributing w"
  shows "bucketCount (indexName m) (registered m) w =
           (if mainFilter (indexName m) w \<and>
               (sharedFilter (indexName m) w \<or> derivedFilter (indexName m) w)
            then 2 else 1) \<and>
         length (filter (\<lambda>g. w \<in> set (group_widgets g))
                   (derivatedWidgets (snd (getSearchParameters m)))) \<le> 1 \<and>
         \<not> (w \<in> set (sharedWidgets (indexName m) (registered m)) \<and>
            (\<exists>g \<in> set (derivatedWidgets (snd (getSearchParameters m))).
                w \<in> set (group_widgets g))) \<and>
         ((w \<in> set (sharedWidgets (indexName m) (registered m)) \<and>
           w \<in> set (mainWidgets (indexName m) (registered m))) =
          (multiIndexContext w = None \<and> props_indexName w = Some (indexName m) \<and>
           indexName m \<noteq> [])) \<and>
         ((w \<in> set (mainWidgets (indexName m) (registered m)) \<and>
           (\<exists>g \<in> set (derivatedWidgets (snd (getSearchParameters m))).
                w \<in> set (group_widgets g))) =
          (multiIndexContext w \<noteq> None \<and> truthy (props_indexName w) \<and>
           (multiIndexContext w = Some (indexName m)) \<noteq>
           (props_indexName w = Some (indexName m))))"
proof -
  let ?idx = "indexName m" and ?ws = "registered m"
  have g: "derivatedWidgets (snd (getSearchParameters m)) = derivedGroups ?idx ?ws"
    by (simp add: getSearchParameters_def Let_def)
  have 1: "bucketCount ?idx ?ws w =
      (if mainFilter ?idx w \<and> (sharedFilter ?idx w \<or> derivedFilter ?idx w) then 2 else 1)"
    using assms by (rule bucketCount_eq)
  have 2: "length (filter (\<lambda>g. w \<in> set (group_widgets g)) (derivedGroups ?idx ?ws)) \<le> 1"
    using grouped_holders_le_one [OF grouped_derivedGroups, of w ?idx ?ws] by simp
  have 3: "\<not> (w \<in> set (sharedWidgets ?idx ?ws) \<and>
              (\<exists>g \<in> set (derivedGroups ?idx ?ws). w \<in> set (group_widgets g)))"
    using shared_not_derived [of ?idx w]
    by (auto simp: in_derivedGroups_iff sharedWidgets_def)
  have 4: "(w \<in> set (sharedWidgets ?idx ?ws) \<and> w \<in> set (mainWidgets ?idx ?ws)) =
      (multiIndexContext w = None \<and> props_indexName w = Some ?idx \<and> ?idx \<noteq> [])"
    using assms shared_main_iff [of ?idx w]
    by (auto simp: sharedWidgets_def mainWidgets_def)
  have 5: "(w \<in> set (mainWidgets ?idx ?ws) \<and>
            (\<exists>g \<in> set (derivedGroups ?idx ?ws). w \<in> set (group_widgets g))) =
      (multiIndexContext w \<noteq> None \<and> truthy (props_indexName w) \<and>
       (multiIndexContext w = Some ?idx) \<noteq> (props_indexName w = Some ?idx))"
    using assms main_derived_iff [of ?idx w]
    by (auto simp: in_derivedGroups_iff mainWidgets_def)
  from 1 2 3 4 5 show ?thesis unfolding g by blast
qed

text \<open>A menu inside the index component of \<open>products_by_price\<close> is in one bucket.\<close>

theorem composer_buckets_witness:
  "bucketCount ''products''
     [refinementList ''brand:acme'', menuIn ''products_by_price'' ''category:shoes'']
     (menuIn ''products_by_price'' ''category:shoes'') = 1"
proof -
  let ?w = "menuIn ''products_by_price'' ''category:shoes''"
  let ?m = "productsManager [refinementList ''brand:acme'', ?w]"
  have 1: "?w \<in> set (registered ?m)" by (simp add: productsManager_fields)
  have 2: "contributing ?w" by (rule widget_kinds)
  have 3: "\<not> mainFilter ''products'' ?w"
    by (simp add: mainFilter_def menuIn_def plainWidget_def truthy_def)
  from composer_buckets [OF 1 2] 3 show ?thesis by (simp add: productsManager_fields)
qed

text \<open>
  C1 as stated fails: the index component of the primary index passes both the shared
  filter and the filter of the primary index, and its contribution is applied in both
  folds.
\<close>

theorem composer_buckets_counterexample:
  "contributing (indexWidget ''products'') \<and>
   indexWidget ''products'' \<in> set (registered (productsManager [indexWidget ''products''])) \<and>
   indexWidget ''products'' \<in> set (sharedWidgets ''products'' [indexWidget ''products'']) \<and>
   indexWidget ''products'' \<in> set (mainWidgets ''products'' [indexWidget ''products'']) \<and>
   bucketCount (indexName (productsManager [indexWidget ''products'']))
     (registered (productsManager [indexWidget ''products''])) (indexWidget ''products'') = 2"
  by (simp add: productsManager_fields bucketCount_def sharedWidgets_def mainWidgets_def
        derivedGroups_def contributing_def sharedFilter_def mainFilter_def derivedFilter_def
        truthy_def indexWidget_def plainWidget_def)

section \<open>The parameter composer: the shared fold\<close>

text \<open>
  C7. The shared parameters are the left fold, in registration order, of the
  contributions of the shared widgets over \<open>initialSearchParameters\<close>. Hence the last
  writer wins: when a shared widget sets \<open>k\<close> to \<open>v\<close> and no shared widget registered
  after it changes \<open>k\<close>, the shared parameters have \<open>v\<close> at \<open>k\<close>, whatever the widgets
  registered before it wrote there.
\<close>

theorem shared_parameters_left_fold:
  "sharedParameters (snd (getSearchParameters m)) =
     foldl (\<lambda>acc w. the (widget_getSearchParameters w) acc) (initialSearchParameters m)
       (filter (sharedFilter (indexName m)) (filter contributing (registered m))) \<and>
   (registered m = before @ w # after \<and> contributing w \<and> sharedFilter (indexName m) w \<and>
    (\<forall>p. params (the (widget_getSearchParameters w) p) k = Some v) \<and>
    (\<forall>u \<in> set (sharedWidgets (indexName m) after).
        \<forall>p. params (the (widget_getSearchParameters u) p) k = params p k)
    \<longrightarrow> params (sharedParameters (snd (getSearchParameters m))) k = Some v)"
proof (intro conjI impI)
  show "sharedParameters (snd (getSearchParameters m)) =
     foldl (\<lambda>acc w. the (widget_getSearchParameters w) acc) (initialSearchParameters m)
       (filter (sharedFilter (indexName m)) (filter contributing (registered m)))"
    by (simp add: getSearchParameters_def Let_def sharedWidgets_def reduce_foldl contribute_eq)
next
  assume h: "registered m = before @ w # after \<and> contributing w \<and> sharedFilter (indexName m) w \<and>
    (\<forall>p. params (the (widget_getSearchParameters w) p) k = Some v) \<and>
    (\<forall>u \<in> set (sharedWidgets (indexName m) after).
        \<forall>p. params (the (widget_getSearchParameters u) p) k = params p k)"
  let ?idx = "indexName m"
  let ?acc = "reduce contribute (sharedWidgets ?idx before) (initialSearchParameters m)"
  from h have split: "sharedWidgets ?idx (registered m) =
      sharedWidgets ?idx before @ w # sharedWidgets ?idx after"
    by (simp add: sharedWidgets_def)
  have later: "params (reduce contribute (sharedWidgets ?idx after) (contribute ?acc w)) k =
               params (contribute ?acc w) k"
    by (rule reduce_preserves [where P = "\<lambda>p. params p k"]) (use h in \<open>simp add: contribute_def\<close>)
  from h have "params (contribute ?acc w) k = Some v"
    by (simp add: contribute_def)
  with later show "params (sharedParameters (snd (getSearchParameters m))) k = Some v"
    by (simp add: getSearchParameters_def Let_def split reduce_append)
qed

text \<open>Two refinement lists write the same setting; the second one's value is kept.\<close>

theorem shared_parameters_left_fold_witness:
  "params (sharedParameters (snd (getSearchParameters
      (productsManager [refinementList ''brand:acme'', refinementList ''brand:zenith'']))))
      ''facetFilters'' = Some ''brand:zenith''"
proof -
  let ?m = "productsManager [refinementList ''brand:acme'', refinementList ''brand:zenith'']"
  have "registered ?m = [refinementList ''brand:acme''] @ refinementList ''brand:zenith'' # [] \<and>
        contributing (refinementList ''brand:zenith'') \<and>
        sharedFilter (indexName ?m) (refinementList ''brand:zenith'') \<and>
        (\<forall>p. params (the (widget_getSearchParameters (refinementList ''brand:zenith'')) p)
               ''facetFilters'' = Some ''brand:zenith'') \<and>
        (\<forall>u \<in> set (sharedWidgets (indexName ?m) []).
           \<forall>p. params (the (widget_getSearchParameters u) p) ''facetFilters'' =
                params p ''facetFilters'')"
    by (simp add: productsManager_def createInstantSearchManager_def refinementList_def
          plainWidget_def contributing_def sharedFilter_def truthy_def setQueryParameter_def
          sharedWidgets_def)
  with shared_parameters_left_fold
         [of ?m "[refinementList ''brand:acme'']" "refinementList ''brand:zenith''" "[]"
             "''facetFilters''" "''brand:zenith''"]
  show ?thesis by blast
qed

section \<open>The state after a search cycle\<close>

text \<open>
  As the targets of the groups are distinct, the loop over \<open>derivatedWidgets\<close> attaches
  one derived helper per group, in order, and \<open>helper.search()\<close> runs their callbacks
  in that order. This gives the state after a cycle in closed form.
\<close>

lemma setProperty_fresh: "k \<notin> fst ` set es \<Longrightarrow> setProperty k v es = es @ [(k, v)]"
  by (induction es) auto

lemma reduce_deriveStep:
  "distinct (map fst acc @ map targetedIndex gs) \<Longrightarrow>
   reduce (deriveStep shared) gs acc =
     acc @ map (\<lambda>g. (targetedIndex g, \<lparr>dh_shared = shared, dh_group = g\<rparr>)) gs"
proof (induction gs arbitrary: acc)
  case Nil
  then show ?case by simp
next
  case (Cons g gs)
  from Cons.prems have fresh: "targetedIndex g \<notin> fst ` set acc" by auto
  from Cons.prems
  have d: "distinct (map fst (acc @ [(targetedIndex g, \<lparr>dh_shared = shared, dh_group = g\<rparr>)]) @
             map targetedIndex gs)"
    by auto
  show ?case
    using Cons.IH [OF d] by (simp add: deriveStep_def setProperty_fresh [OF fresh])
qed

lemma getModifiedStates_map:
  "getModifiedStates (map (\<lambda>g. (targetedIndex g, \<lparr>dh_shared = shared, dh_group = g\<rparr>)) gs) mp =
     (recordGroups shared mp gs, map (\<lambda>g. reduce contribute (group_widgets g) shared) gs)"
  by (induction gs arbitrary: mp)
     (simp_all add: recordGroups_def physicalIndex_def derivedParameters_def Let_def)

lemma search_unfold:
  assumes "\<not> skip m"
  shows "search m =
     m\<lparr>indexMapping :=
          recordGroups (sharedParameters (snd (getSearchParameters m)))
            (Map.empty(index (sharedParameters (snd (getSearchParameters m))) \<mapsto> indexName m))
            (derivatedWidgets (snd (getSearchParameters m))),
       derivedHelpers :=
          map (\<lambda>g. (targetedIndex g,
                 \<lparr>dh_shared = sharedParameters (snd (getSearchParameters m)), dh_group = g\<rparr>))
            (derivatedWidgets (snd (getSearchParameters m))),
       helper_state := mainIndexParameters (snd (getSearchParameters m)),
       dispatched := dispatched m @
          [mainIndexParameters (snd (getSearchParameters m)) #
           map (\<lambda>g. reduce contribute (group_widgets g)
                        (sharedParameters (snd (getSearchParameters m))))
             (derivatedWidgets (snd (getSearchParameters m)))]\<rparr>"
proof -
  have d: "distinct (map fst ([] :: (string \<times> derived_helper) list) @
             map targetedIndex (derivedGroups (indexName m) (registered m)))"
    using grouped_derivedGroups [of "indexName m" "registered m"] by (simp add: grouped_def)
  show ?thesis
    using assms
    by (simp add: search_def helperSearch_def getSearchParameters_def Let_def
          reduce_deriveStep [OF d] getModifiedStates_map)
qed

lemma search_config:
  "indexName (search m) = indexName m \<and>
   initialSearchParameters (search m) = initialSearchParameters m \<and>
   registered (search m) = registered m \<and> store (search m) = store m \<and> skip (search m) = skip m"
proof (cases "skip m")
  case True
  then show ?thesis by (simp add: search_def)
next
  case False
  then show ?thesis by (simp add: search_unfold)
qed

section \<open>The parameter composer: determinism\<close>

lemma getSearchParameters_config:
  "indexName m1 = indexName m2 \<Longrightarrow> initialSearchParameters m1 = initialSearchParameters m2 \<Longrightarrow>
   registered m1 = registered m2 \<Longrightarrow> snd (getSearchParameters m1) = snd (getSearchParameters m2)"
  by (simp add: getSearchParameters_def Let_def)

text \<open>
  C6. The output of the composer is a function of the configured index name, of
  \<open>initialSearchParameters\<close> and of the registered widgets in their order: two managers
  that agree on these get identical shared parameters, primary parameters and groups,
  whatever the rest of their state. In particular composing again right away, or after
  a whole search cycle, yields the same output.
\<close>

theorem getSearchParameters_deterministic:
  assumes "indexName m1 = indexName m2"
      and "initialSearchParameters m1 = initialSearchParameters m2"
      and "registered m1 = registered m2"
  shows "snd (getSearchParameters m1) = snd (getSearchParameters m2) \<and>
         snd (getSearchParameters (fst (getSearchParameters m1))) = snd (getSearchParameters m1) \<and>
         snd (getSearchParameters (search m1)) = snd (getSearchParameters m1)"
proof -
  have a: "snd (getSearchParameters m1) = snd (getSearchParameters m2)"
    using assms by (rule getSearchParameters_config)
  have b: "snd (getSearchParameters (fst (getSearchParameters m1))) = snd (getSearchParameters m1)"
    by (rule getSearchParameters_config) (simp_all add: getSearchParameters_def Let_def)
  have c: "snd (getSearchParameters (search m1)) = snd (getSearchParameters m1)"
    by (rule getSearchParameters_config) (simp_all add: search_config)
  from a b c show ?thesis by simp
qed

text \<open>The same configuration with a different store composes to the same output.\<close>

theorem getSearchParameters_deterministic_witness:
  "snd (getSearchParameters (productsManager [refinementList ''brand:acme'', indexWidget ''products_by_price''])) =
   snd (getSearchParameters
     (handleSearchError (productsManager [refinementList ''brand:acme'', indexWidget ''products_by_price''])
        ''timeout''))"
proof -
  let ?m = "productsManager [refinementList ''brand:acme'', indexWidget ''products_by_price'']"
  have 1: "indexName ?m = indexName (handleSearchError ?m ''timeout'')"
    by (simp add: handleSearchError_def)
  have 2: "initialSearchParameters ?m = initialSearchParameters (handleSearchError ?m ''timeout'')"
    by (simp add: handleSearchError_def)
  have 3: "registered ?m = registered (handleSearchError ?m ''timeout'')"
    by (simp add: handleSearchError_def)
  from getSearchParameters_deterministic [OF 1 2 3] show ?thesis by blast
qed

section \<open>The search cycle: the index mapping\<close>

text \<open>What the writes of the callbacks leave in the index mapping.\<close>

lemma recordGroups_other:
  "k \<notin> set (map (physicalIndex shared) gs) \<Longrightarrow> recordGroups shared mp gs k = mp k"
  by (induction gs arbitrary: mp) (simp_all add: recordGroups_def)

lemma recordGroups_entry:
  "distinct (map (physicalIndex shared) gs) \<Longrightarrow> g \<in> set gs \<Longrightarrow>
     recordGroups shared mp gs (physicalIndex shared g) = Some (targetedIndex g)"
proof (induction gs arbitrary: mp)
  case Nil
  then show ?case by simp
next
  case (Cons a gs)
  show ?case
  proof (cases "g = a")
    case True
    from Cons.prems(1) have "physicalIndex shared a \<notin> set (map (physicalIndex shared) gs)"
      by simp
    from recordGroups_other [OF this] True show ?thesis
      by (simp add: recordGroups_def)
  next
    case False
    with Cons.prems have "g \<in> set gs" "distinct (map (physicalIndex shared) gs)" by simp_all
    from Cons.IH [OF this(2) this(1)] show ?thesis by (simp add: recordGroups_def)
  qed
qed

text \<open>
  C3, as the code has it. In a cycle that is not skipped, the batch handed to the client
  queries the index of the primary parameters and the physical index of every derived
  group, and at that moment the index mapping maps each derived group's physical index
  to the group's logical index name provided no two groups of the cycle have the same
  physical index, and maps the primary physical index to the configured index name
  provided no derived group has that physical index and the widgets of the primary
  index leave the index of the shared parameters unchanged.
\<close>

theorem search_commits_index_mapping:
  assumes "\<not> skip m"
  shows "(let c = snd (getSearchParameters m);
              shared = sharedParameters c;
              groups = derivatedWidgets c
          in map index (last (dispatched (search m))) =
               index (mainIndexParameters c) # map (physicalIndex shared) groups \<and>
             (distinct (map (physicalIndex shared) groups) \<longrightarrow>
                (\<forall>g \<in> set groups.
                    indexMapping (search m) (physicalIndex shared g) = Some (targetedIndex g))) \<and>
             (index (mainIndexParameters c) = index shared \<and>
              index (mainIndexParameters c) \<notin> set (map (physicalIndex shared) groups) \<longrightarrow>
                indexMapping (search m) (index (mainIndexParameters c)) = Some (indexName m)))"
proof -
  let ?c = "snd (getSearchParameters m)"
  let ?shared = "sharedParameters ?c" and ?groups = "derivatedWidgets ?c"
  have mp: "indexMapping (search m) =
      recordGroups ?shared (Map.empty(index ?shared \<mapsto> indexName m)) ?groups"
    by (simp add: search_unfold [OF assms])
  have ds: "map index (last (dispatched (search m))) =
      index (mainIndexParameters ?c) # map (physicalIndex ?shared) ?groups"
    by (simp add: search_unfold [OF assms] physicalIndex_def)
  have derived: "\<forall>g \<in> set ?groups.
      indexMapping (search m) (physicalIndex ?shared g) = Some (targetedIndex g)"
    if "distinct (map (physicalIndex ?shared) ?groups)"
    using that by (simp add: mp recordGroups_entry)
  have primary: "indexMapping (search m) (index (mainIndexParameters ?c)) = Some (indexName m)"
    if "index (mainIndexParameters ?c) = index ?shared"
      and "index (mainIndexParameters ?c) \<notin> set (map (physicalIndex ?shared) ?groups)"
    using that by (simp add: mp recordGroups_other)
  show ?thesis
    unfolding Let_def
  proof (intro conjI impI)
    show "map index (last (dispatched (search m))) =
        index (mainIndexParameters ?c) # map (physicalIndex ?shared) ?groups"
      by (rule ds)
  next
    assume "distinct (map (physicalIndex ?shared) ?groups)"
    then show "\<forall>g \<in> set ?groups.
        indexMapping (search m) (physicalIndex ?shared g) = Some (targetedIndex g)"
      by (rule derived)
  next
    assume "index (mainIndexParameters ?c) = index ?shared \<and>
        index (mainIndexParameters ?c) \<notin> set (map (physicalIndex ?shared) ?groups)"
    then show "indexMapping (search m) (index (mainIndexParameters ?c)) = Some (indexName m)"
      using primary by blast
  qed
qed

text \<open>A refinement list and the index component of \<open>products_by_price\<close>.\<close>

lemma example_cycle:
  "snd (getSearchParameters
     (productsManager [refinementList ''brand:acme'', indexWidget ''products_by_price''])) =
   \<lparr>sharedParameters =
       \<lparr>index = ''products'', params = [''facetFilters'' \<mapsto> ''brand:acme'']\<rparr>,
     mainIndexParameters =
       \<lparr>index = ''products'', params = [''facetFilters'' \<mapsto> ''brand:acme'']\<rparr>,
     derivatedWidgets =
       [\<lparr>targetedIndex = ''products_by_price'',
         group_widgets = [indexWidget ''products_by_price'']\<rparr>]\<rparr>"
  by (simp add: getSearchParameters_def Let_def productsManager_fields sharedWidgets_def
        mainWidgets_def derivedGroups_def groupStep_def targetOf_def contributing_def
        sharedFilter_def mainFilter_def derivedFilter_def truthy_def contribute_def propertyKey_def
        refinementList_def indexWidget_def plainWidget_def setQueryParameter_def setIndex_def)

theorem search_commits_index_mapping_witness:
  "indexMapping
     (search (productsManager [refinementList ''brand:acme'', indexWidget ''products_by_price'']))
     ''products'' = Some ''products'' \<and>
   indexMapping
     (search (productsManager [refinementList ''brand:acme'', indexWidget ''products_by_price'']))
     ''products_by_price'' = Some ''products_by_price''"
proof -
  let ?m = "productsManager [refinementList ''brand:acme'', indexWidget ''products_by_price'']"
  have ns: "\<not> skip ?m" by (simp add: productsManager_fields)
  have ph: "physicalIndex \<lparr>index = ''products'', params = [''facetFilters'' \<mapsto> ''brand:acme'']\<rparr>
              \<lparr>targetedIndex = ''products_by_price'',
               group_widgets = [indexWidget ''products_by_price'']\<rparr> = ''products_by_price''"
    by (simp add: physicalIndex_def contribute_def indexWidget_def plainWidget_def setIndex_def)
  note cycle = search_commits_index_mapping [OF ns, unfolded Let_def]
  from cycle [THEN conjunct2] show ?thesis
    by (simp add: example_cycle ph productsManager_fields)
qed


lemmas composer_defs =
  getSearchParameters_def Let_def sharedWidgets_def mainWidgets_def derivedGroups_def
  groupStep_def targetOf_def contributing_def sharedFilter_def mainFilter_def
  derivedFilter_def truthy_def contribute_def propertyKey_def physicalIndex_def
  recordGroups_def refinementList_def indexWidget_def menuIn_def sortBy_def sortByIn_def
  plainWidget_def setQueryParameter_def setIndex_def

text \<open>
  C3 as stated fails: the mapping is keyed by physical index, so it cannot hold two
  logical names for one physical index. With the primary index sorted by a replica that
  is also shown as an index of its own, both requests query \<open>products_price_asc\<close> and
  the write of the derived callback replaces the primary entry.
\<close>

theorem search_commits_index_mapping_counterexample:
  "indexName (search (productsManager
      [sortBy ''products_price_asc'', indexWidget ''products_price_asc''])) = ''products'' \<and>
   map index (last (dispatched (search (productsManager
      [sortBy ''products_price_asc'', indexWidget ''products_price_asc''])))) =
     [''products_price_asc'', ''products_price_asc''] \<and>
   indexMapping (search (productsManager
      [sortBy ''products_price_asc'', indexWidget ''products_price_asc'']))
      ''products_price_asc'' = Some ''products_price_asc''"
proof -
  let ?m = "productsManager [sortBy ''products_price_asc'', indexWidget ''products_price_asc'']"
  have ns: "\<not> skip ?m" by (simp add: productsManager_fields)
  show ?thesis
    unfolding search_unfold [OF ns]
    by (simp add: productsManager_fields composer_defs)
qed

text \<open>
  The entry of the primary index is keyed by the index of the shared parameters, while
  the request is sent with the primary parameters: a sort-by widget inside the index
  component of the primary index leaves the queried index without an entry.
\<close>

lemma primary_sort_by_unmapped:
  "map index (last (dispatched (search (productsManager
      [indexWidget ''products'', sortByIn ''products'' ''products_price_desc''])))) =
     [''products_price_desc''] \<and>
   indexMapping (search (productsManager
      [indexWidget ''products'', sortByIn ''products'' ''products_price_desc'']))
      ''products_price_desc'' = None"
proof -
  let ?m = "productsManager [indexWidget ''products'', sortByIn ''products'' ''products_price_desc'']"
  have ns: "\<not> skip ?m" by (simp add: productsManager_fields)
  show ?thesis
    unfolding search_unfold [OF ns]
    by (simp add: productsManager_fields composer_defs)
qed

section \<open>The result reconciler\<close>

text \<open>
  C2, as the code has it. After the success handler has run, \<open>results\<close> is multi-index
  shaped if and only if a derived helper is attached at that moment, that is if and only
  if the most recently started cycle had a derived group; with none attached the handler
  writes the response itself as \<open>results\<close>, and with one attached a prior mono-shaped
  value is discarded, the new mapping holding the response alone.
\<close>

theorem handleSearchSuccess_shape:
  "is_multi (results (store (handleSearchSuccess m c))) = (derivedHelpers m \<noteq> []) \<and>
   (derivedHelpers m = [] \<longrightarrow> results (store (handleSearchSuccess m c)) = Some (Mono c)) \<and>
   (derivedHelpers m \<noteq> [] \<and> results (store m) = Some (Mono old) \<longrightarrow>
      results (store (handleSearchSuccess m c)) =
        Some (Multi (Map.empty(propertyKey (indexMapping m (content_index c)) \<mapsto> c)))) \<and>
   (\<not> skip m \<longrightarrow>
      (derivedHelpers (search m) \<noteq> []) = (derivatedWidgets (snd (getSearchParameters m)) \<noteq> []) \<and>
      is_multi (results (store (handleSearchSuccess (search m) c))) =
        (derivatedWidgets (snd (getSearchParameters m)) \<noteq> []))"
proof -
  have shape: "is_multi (results (store (handleSearchSuccess m' c))) = (derivedHelpers m' \<noteq> [])"
    for m'
    by (simp add: handleSearchSuccess_def Let_def is_multi_def assign_result_def
          has_getFacetByName_def split: option.splits results_shape.splits)
  have mono: "derivedHelpers m = [] \<longrightarrow> results (store (handleSearchSuccess m c)) = Some (Mono c)"
    by (simp add: handleSearchSuccess_def Let_def)
  have discard: "derivedHelpers m \<noteq> [] \<and> results (store m) = Some (Mono old) \<longrightarrow>
      results (store (handleSearchSuccess m c)) =
        Some (Multi (Map.empty(propertyKey (indexMapping m (content_index c)) \<mapsto> c)))"
    by (simp add: handleSearchSuccess_def Let_def assign_result_def has_getFacetByName_def)
  have cyc: "(derivedHelpers (search m) \<noteq> []) =
             (derivatedWidgets (snd (getSearchParameters m)) \<noteq> [])" if "\<not> skip m"
    by (simp add: search_unfold [OF that])
  from shape [of m] shape [of "search m"] mono discard cyc show ?thesis by simp
qed

text \<open>A response reconciled right after a cycle with one derived group.\<close>

theorem handleSearchSuccess_shape_witness:
  "is_multi (results (store (handleSearchSuccess
      (search (productsManager [refinementList ''brand:acme'', indexWidget ''products_by_price'']))
      (response ''products_by_price''))))"
proof -
  let ?m = "productsManager [refinementList ''brand:acme'', indexWidget ''products_by_price'']"
  have ns: "\<not> skip ?m" by (simp add: productsManager_fields)
  from handleSearchSuccess_shape [of ?m "response ''products_by_price''", THEN conjunct2,
         THEN conjunct2, THEN conjunct2] ns
  show ?thesis by (simp add: example_cycle)
qed

text \<open>
  C2 as stated fails for a response that arrives after the next cycle has started. The
  first cycle has no derived group and queries \<open>products_price_asc\<close>; the second one
  has a derived group and queries \<open>products\<close> and \<open>products_by_price\<close>. Reconciling the
  response of the first cycle then gives a multi-index shaped \<open>results\<close>.
\<close>

theorem handleSearchSuccess_shape_counterexample:
  "derivatedWidgets (snd (getSearchParameters
      (productsManager [sortBy ''products_price_asc'']))) = [] \<and>
   map (map index) (dispatched (run (productsManager [])
      [WidgetsChanged [sortBy ''products_price_asc''],
       WidgetsChanged [indexWidget ''products_by_price'']])) =
     [[''products_price_asc''], [''products'', ''products_by_price'']] \<and>
   is_multi (results (store (run (productsManager [])
      [WidgetsChanged [sortBy ''products_price_asc''],
       WidgetsChanged [indexWidget ''products_by_price''],
       SearchSuccess (response ''products_price_asc'')])))"
  by (simp add: run_def onWidgetsUpdate_def getMetadata_def search_unfold productsManager_def
        createInstantSearchManager_def composer_defs handleSearchSuccess_def is_multi_def
        assign_result_def has_getFacetByName_def response_def)

text \<open>
  C4, as the code has it. The handler is total. For a response whose physical index has
  no entry in the index mapping and is not a name every object inherits, it still writes
  \<open>results\<close>: with no derived helper attached the response replaces \<open>results\<close>; with
  one attached the response is stored under the key \<open>undefined\<close>, next to the entries
  an earlier mapping already had (a mono-shaped or absent value, and a mapping with an
  entry named \<open>getFacetByName\<close>, start from the empty mapping). The flag \<open>searching\<close>
  and the error are cleared.
\<close>

theorem unmapped_response_handling:
  assumes "indexMapping m (content_index c) = None"
      and "\<not> inheritedName (content_index c)"
  shows "(derivedHelpers m = [] \<longrightarrow>
            results (store (handleSearchSuccess m c)) = Some (Mono c)) \<and>
         (derivedHelpers m \<noteq> [] \<longrightarrow>
            (\<exists>mp. results (store (handleSearchSuccess m c)) = Some (Multi mp) \<and>
                  mp ''undefined'' = Some c)) \<and>
         (derivedHelpers m \<noteq> [] \<and> results (store m) = Some (Multi old) \<and>
          old ''getFacetByName'' = None \<longrightarrow>
            results (store (handleSearchSuccess m c)) = Some (Multi (old(''undefined'' \<mapsto> c)))) \<and>
         (derivedHelpers m \<noteq> [] \<and>
          (results (store m) = None \<or> results (store m) = Some (Mono r) \<or>
           results (store m) = Some (Multi old) \<and> old ''getFacetByName'' \<noteq> None) \<longrightarrow>
            results (store (handleSearchSuccess m c)) =
              Some (Multi (Map.empty(''undefined'' \<mapsto> c)))) \<and>
         searching (store (handleSearchSuccess m c)) = False \<and>
         error (store (handleSearchSuccess m c)) = None"
  using assms
  by (auto simp: handleSearchSuccess_def Let_def assign_result_def has_getFacetByName_def
        propertyKey_def split: option.splits results_shape.splits)

text \<open>A response for an index that the cycle did not query.\<close>

theorem unmapped_response_handling_witness:
  "results (store (handleSearchSuccess
      (search (productsManager [refinementList ''brand:acme'', indexWidget ''products_by_price'']))
      (response ''products_price_asc''))) =
   Some (Multi (Map.empty(''undefined'' \<mapsto> response ''products_price_asc'')))"
proof -
  let ?m = "productsManager [refinementList ''brand:acme'', indexWidget ''products_by_price'']"
  have ns: "\<not> skip ?m" by (simp add: productsManager_fields)
  have un: "indexMapping (search ?m) (content_index (response ''products_price_asc'')) = None"
    unfolding search_unfold [OF ns]
    by (simp add: productsManager_fields composer_defs response_def)
  have dh: "derivedHelpers (search ?m) \<noteq> []"
    unfolding search_unfold [OF ns] by (simp add: example_cycle)
  have rs: "results (store (search ?m)) = None"
    by (simp add: search_config productsManager_fields)
  have ni: "\<not> inheritedName (content_index (response ''products_price_asc''))"
    by (simp add: inheritedName_def response_def)
  from unmapped_response_handling [OF un ni] dh rs show ?thesis by blast
qed

text \<open>
  C4 as stated fails. The first cycle queries \<open>products_price_asc\<close> and
  \<open>products_by_price\<close>; the widgets change and the second cycle, which maps only
  \<open>products\<close> and \<open>products_by_price\<close>, starts before any answer has arrived. The
  primary answer of the first cycle is then the first one to be reconciled: its index
  has no entry, and it is written into \<open>results\<close> under the key \<open>undefined\<close>.
\<close>

theorem unmapped_response_handling_counterexample:
  "\<not> inheritedName (content_index (response ''products_price_asc'')) \<and>
   map (map index) (dispatched (run (productsManager [])
      [WidgetsChanged [sortBy ''products_price_asc'', indexWidget ''products_by_price''],
       WidgetsChanged [indexWidget ''products_by_price'']])) =
     [[''products_price_asc'', ''products_by_price''], [''products'', ''products_by_price'']] \<and>
   indexMapping (run (productsManager [])
      [WidgetsChanged [sortBy ''products_price_asc'', indexWidget ''products_by_price''],
       WidgetsChanged [indexWidget ''products_by_price'']])
      (content_index (response ''products_price_asc'')) = None \<and>
   results (store (run (productsManager [])
      [WidgetsChanged [sortBy ''products_price_asc'', indexWidget ''products_by_price''],
       WidgetsChanged [indexWidget ''products_by_price''],
       SearchSuccess (response ''products_price_asc'')])) =
     Some (Multi [''undefined'' \<mapsto> response ''products_price_asc''])"
  by (simp add: run_def onWidgetsUpdate_def getMetadata_def search_unfold productsManager_def
        createInstantSearchManager_def composer_defs handleSearchSuccess_def
        assign_result_def has_getFacetByName_def response_def inheritedName_def)

end
